theory Spec2Isabelle
  imports Main "HOL-Library.AList" "HOL-Library.Sublist"
begin

section \<open>Strings\<close>

text \<open>
  A Python \<^verbatim>\<open>str\<close> is modelled by its UTF-8 encoding, a \<^typ>\<open>string\<close> of bytes.
  UTF-8 is self-synchronising, so membership of a character, prefixes, splitting at an
  ASCII separator and joining agree with the same operations on code points.
\<close>

definition sq :: string where
  "sq = [CHR 0x27]"

definition nl :: string where
  "nl = [CHR 0x0A]"

definition backtick :: char where
  "backtick = CHR 0x60"

text \<open>\<^verbatim>\<open>sep.join(parts)\<close>\<close>

fun join :: "string \<Rightarrow> string list \<Rightarrow> string" where
  "join sep [] = []"
| "join sep [x] = x"
| "join sep (x # y # ys) = x @ sep @ join sep (y # ys)"

text \<open>\<^verbatim>\<open>str(n)\<close> of an integer: decimal digits, a minus sign when negative.\<close>

fun str_nat :: "nat \<Rightarrow> string" where
  "str_nat n = (if n < 10 then [char_of (48 + n)] else str_nat (n div 10) @ [char_of (48 + n mod 10)])"

definition str_int :: "int \<Rightarrow> string" where
  "str_int i = (if i < 0 then ''-'' @ str_nat (nat (- i)) else str_nat (nat i))"

section \<open>Entity model\<close>

text \<open>
  The field \<^verbatim>\<open>value: Any\<close> of a condition: a string, a boolean, \<^verbatim>\<open>None\<close>, an integer,
  or a value of another type, which the renderers only ever turn into text with
  \<^verbatim>\<open>str\<close>; \<open>VOther\<close> carries that text.
\<close>

datatype pyval = VStr string | VBool bool | VNone | VInt int | VOther string

record Condition =
  cond_field :: string
  cond_operator :: string
  cond_value :: pyval

record WhereClause =
  where_type :: string
  conditions :: "Condition list"

record Node =
  label :: string
  n_alias :: string

text \<open>\<^verbatim>\<open>optional: Optional[bool] = False\<close>: the document may also give \<^verbatim>\<open>null\<close>.\<close>

record Relationship =
  node1 :: string
  node2 :: string
  rel_type :: string
  optional :: "bool option"

record Aggregation =
  agg_function :: string
  agg_field :: string
  agg_alias :: string

record WithClause =
  with_fields :: "string list"
  aggregations :: "Aggregation list option"

record ReturnClause =
  return_fields :: "string list"
  distinct_flag :: bool

record OrderByClause =
  order_field :: string
  direction :: string

record CypherQuery =
  nodes :: "Node list"
  relationships :: "Relationship list"
  whereClause :: "WhereClause option"
  with_projection :: "WithClause option"
  withClause :: "WhereClause option"
  returnClause :: ReturnClause
  orderBy :: "OrderByClause option"
  limit :: "int option"

text \<open>
  The exceptions the compiler can meet, each with the message \<^verbatim>\<open>str(e)\<close> gives:
  the binding layer's \<^verbatim>\<open>ValidationError\<close>, the validators' \<^verbatim>\<open>ValueError\<close>, and the
  \<^verbatim>\<open>TypeError\<close> and \<^verbatim>\<open>IndexError\<close> of the interpreter.
\<close>

datatype error = ValidationError string | ValueError string | TypeError string | IndexError string

fun message :: "error \<Rightarrow> string" where
  "message (ValidationError m) = m"
| "message (ValueError m) = m"
| "message (TypeError m) = m"
| "message (IndexError m) = m"

text \<open>Truthiness of \<^verbatim>\<open>rel.optional\<close>: only \<^verbatim>\<open>True\<close> counts.\<close>

definition is_optional :: "Relationship \<Rightarrow> bool" where
  "is_optional rel = (optional rel = Some True)"

section \<open>Validation functions\<close>

text \<open>
  \<^verbatim>\<open>validate_aliases\<close>: the loop over the relationships raises at the first endpoint
  that is not the alias of a node, \<^verbatim>\<open>node1\<close> before \<^verbatim>\<open>node2\<close>.
\<close>

fun check_aliases :: "string set \<Rightarrow> Relationship list \<Rightarrow> error + unit" where
  "check_aliases node_aliases [] = Inr ()"
| "check_aliases node_aliases (rel # rels) =
     (if node1 rel \<notin> node_aliases then
        Inl (ValueError (''Relationship node1 alias '' @ sq @ node1 rel @ sq @ '' not found in nodes.''))
      else if node2 rel \<notin> node_aliases then
        Inl (ValueError (''Relationship node2 alias '' @ sq @ node2 rel @ sq @ '' not found in nodes.''))
      else check_aliases node_aliases rels)"

definition validate_aliases :: "Node list \<Rightarrow> Relationship list \<Rightarrow> error + unit" where
  "validate_aliases ns rels = check_aliases (set (map n_alias ns)) rels"

text \<open>
  \<^verbatim>\<open>re.match(r"^.*`.*`.*$", field)\<close>: \<^verbatim>\<open>.\<close> matches every character but the line feed,
  and \<^verbatim>\<open>$\<close> matches at the end of the string or before a line feed that ends it. So the
  pattern matches exactly when the field, without one final line feed if it has one,
  holds no line feed and at least two backticks.
\<close>

definition re_match_backticked :: "string \<Rightarrow> bool" where
  "re_match_backticked s =
     (let core = (if s \<noteq> [] \<and> last s = CHR 0x0A then butlast s else s)
      in CHR 0x0A \<notin> set core \<and> 2 \<le> count_list core backtick)"

fun validate_field_syntax :: "string list \<Rightarrow> error + unit" where
  "validate_field_syntax [] = Inr ()"
| "validate_field_syntax (f # fs) =
     (if CHR '' '' \<in> set f \<and> \<not> re_match_backticked f then
        Inl (ValueError (''Field '' @ sq @ f @ sq @ '' contains spaces and is not backticked.''))
      else validate_field_syntax fs)"

fun validate_conditions :: "Condition list \<Rightarrow> error + unit" where
  "validate_conditions [] = Inr ()"
| "validate_conditions (cond # conds) =
     (case validate_field_syntax [cond_field cond] of
        Inl e \<Rightarrow> Inl e
      | Inr _ \<Rightarrow> validate_conditions conds)"

section \<open>Cypher pattern helpers\<close>

text \<open>\<^verbatim>\<open>node_lookup = {n.alias: n for n in nodes}\<close>: a later node replaces an earlier one.\<close>

definition make_node_lookup :: "Node list \<Rightarrow> (string \<rightharpoonup> Node)" where
  "make_node_lookup ns = fold (\<lambda>n m. m(n_alias n \<mapsto> n)) ns Map.empty"

definition fmt_node :: "string \<Rightarrow> (string \<rightharpoonup> Node) \<Rightarrow> string" where
  "fmt_node a node_lookup =
     (case node_lookup a of
        Some n \<Rightarrow> ''('' @ a @ '':'' @ label n @ '')''
      | None \<Rightarrow> ''('' @ a @ '')'')"

text \<open>The node pattern of the source's f-string \<^verbatim>\<open>f"({n.alias}:{n.label})"\<close>.\<close>

definition node_pattern :: "Node \<Rightarrow> string" where
  "node_pattern n = ''('' @ n_alias n @ '':'' @ label n @ '')''"

fun fmt_assignment :: "string \<times> pyval \<Rightarrow> string" where
  "fmt_assignment (k, VStr s) = k @ '': '' @ sq @ s @ sq"
| "fmt_assignment (k, VBool b) = k @ '': '' @ (if b then ''true'' else ''false'')"
| "fmt_assignment (k, VNone) = k @ '': null''"
| "fmt_assignment (k, VInt i) = k @ '': '' @ str_int i"
| "fmt_assignment (k, VOther t) = k @ '': '' @ t"

text \<open>The dictionary \<open>props\<close> is an association list in insertion order.\<close>

definition fmt_node_with_props :: "string \<Rightarrow> string \<Rightarrow> (string \<times> pyval) list \<Rightarrow> string" where
  "fmt_node_with_props a l props =
     (if props = [] then ''('' @ a @ '':'' @ l @ '')''
      else ''('' @ a @ '':'' @ l @ '' {'' @ join '', '' (map fmt_assignment props) @ ''})'')"

subsection \<open>Connected components of relationships\<close>

type_synonym rel_pair = "string \<times> string \<times> string"

fun shares :: "rel_pair \<Rightarrow> rel_pair \<Rightarrow> bool" where
  "shares (a1, a2, _) (b1, b2, _) = (a1 = b1 \<or> a1 = b2 \<or> a2 = b1 \<or> a2 = b2)"

text \<open>
  A Python \<^verbatim>\<open>set\<close> that the code iterates over is modelled by the list of its elements
  in insertion order (\<open>set_add\<close>). The order in which Python iterates over a set is not
  specified: it is modelled by a stable sort of that list under a key that is a
  parameter of the model (\<open>iter_set\<close>), so that every order is covered by some key.
\<close>

definition set_add :: "'a \<Rightarrow> 'a list \<Rightarrow> 'a list" where
  "set_add x xs = (if x \<in> set xs then xs else xs @ [x])"

definition iter_set :: "('a \<Rightarrow> nat) \<Rightarrow> 'a list \<Rightarrow> 'a list" where
  "iter_set key xs = sort_key key xs"

text \<open>The body of the double loop that fills \<^verbatim>\<open>adj: Dict[int, Set[int]]\<close>.\<close>

definition adj_step :: "rel_pair list \<Rightarrow> nat \<Rightarrow> nat \<Rightarrow> (nat \<Rightarrow> nat list) \<Rightarrow> (nat \<Rightarrow> nat list)" where
  "adj_step rel_pairs i j adj =
     (if i = j then adj
      else if shares (rel_pairs ! i) (rel_pairs ! j) then
        (let adj1 = adj(i := set_add j (adj i)) in adj1(j := set_add i (adj1 j)))
      else adj)"

definition build_adj :: "rel_pair list \<Rightarrow> (nat \<Rightarrow> nat list)" where
  "build_adj rel_pairs =
     fold (\<lambda>i. fold (adj_step rel_pairs i) [0..<length rel_pairs]) [0..<length rel_pairs] (\<lambda>_. [])"

text \<open>The loop \<^verbatim>\<open>for v in adj[u]: if v not in seen: seen.add(v); dq.append(v)\<close>.\<close>

fun visit :: "nat list \<Rightarrow> nat set \<times> nat list \<Rightarrow> nat set \<times> nat list" where
  "visit [] (seen, dq) = (seen, dq)"
| "visit (v # vs) (seen, dq) =
     (if v \<notin> seen then visit vs (insert v seen, dq @ [v]) else visit vs (seen, dq))"

lemma adj_step_bounded:
  assumes "i < n" "j < n" "\<forall>u. set (adj u) \<subseteq> {..<n}"
  shows "\<forall>u. set (adj_step rel_pairs i j adj u) \<subseteq> {..<n}"
  using assms by (auto simp: adj_step_def set_add_def Let_def)

lemma build_adj_bounded: "set (build_adj rel_pairs u) \<subseteq> {..<length rel_pairs}"
proof -
  let ?n = "length rel_pairs"
  let ?P = "\<lambda>adj. \<forall>u. set (adj u) \<subseteq> {..<?n}"
  have inner: "?P (fold (adj_step rel_pairs i) [0..<?n] adj)" if "i < ?n" "?P adj" for i adj
    by (rule fold_invariant [where Q = "\<lambda>j. j < ?n" and P = ?P])
       (use that adj_step_bounded in auto)
  have "?P (fold (\<lambda>i. fold (adj_step rel_pairs i) [0..<?n]) [0..<?n] (\<lambda>_. []))"
    by (rule fold_invariant [where Q = "\<lambda>i. i < ?n" and P = ?P]) (use inner in auto)
  then show ?thesis by (simp add: build_adj_def)
qed

lemma visit_measure:
  assumes "set vs \<subseteq> {..<n}" "visit vs (seen, dq) = (seen', dq')"
  shows "card ({..<n} - seen') + length dq' = card ({..<n} - seen) + length dq"
  using assms
proof (induction vs arbitrary: seen dq)
  case Nil
  then show ?case by simp
next
  case (Cons v vs)
  show ?case
  proof (cases "v \<in> seen")
    case True
    with Cons show ?thesis by simp
  next
    case False
    from Cons.prems have v: "v < n" by simp
    from False Cons.prems have "visit vs (insert v seen, dq @ [v]) = (seen', dq')" by simp
    with Cons.IH Cons.prems
    have "card ({..<n} - seen') + length dq' = card ({..<n} - insert v seen) + length (dq @ [v])"
      by simp
    moreover have "{..<n} - insert v seen = ({..<n} - seen) - {v}"
      by auto
    then have "card ({..<n} - insert v seen) = card ({..<n} - seen) - 1"
      using v False by (simp only: card_Diff_singleton) simp
    moreover have "0 < card ({..<n} - seen)"
      using v False by (auto simp: card_gt_0_iff)
    ultimately show ?thesis by simp
  qed
qed

text \<open>
  The breadth-first traversal \<^verbatim>\<open>while dq: u = dq.popleft(); comp.append(u); ...\<close>, from
  the state \<open>(seen, dq, comp)\<close> to the state in which the queue is empty.
\<close>

function bfs :: "rel_pair list \<Rightarrow> (nat \<Rightarrow> nat \<Rightarrow> nat) \<Rightarrow> nat set \<Rightarrow> nat list \<Rightarrow> nat list
    \<Rightarrow> nat set \<times> nat list" where
  "bfs rel_pairs prio seen [] cmpt = (seen, cmpt)"
| "bfs rel_pairs prio seen (u # dq) cmpt =
     (case visit (iter_set (prio u) (build_adj rel_pairs u)) (seen, dq) of
        (seen', dq') \<Rightarrow> bfs rel_pairs prio seen' dq' (cmpt @ [u]))"
  by pat_completeness auto
termination
proof (relation "measure (\<lambda>(rel_pairs, prio, seen, dq, cmpt).
    card ({..<length rel_pairs} - seen) + length dq)", goal_cases)
  case 1
  show ?case by simp
next
  case (2 rel_pairs prio seen u dq cmpt seen' dq')
  have "set (iter_set (prio u) (build_adj rel_pairs u)) \<subseteq> {..<length rel_pairs}"
    using build_adj_bounded [of rel_pairs u] by (simp add: iter_set_def)
  from visit_measure [OF this] 2 show ?case by simp
qed

definition component_step :: "rel_pair list \<Rightarrow> (nat \<Rightarrow> nat \<Rightarrow> nat) \<Rightarrow> nat
    \<Rightarrow> nat set \<times> nat list list \<Rightarrow> nat set \<times> nat list list" where
  "component_step rel_pairs prio i st =
     (case st of (seen, comps) \<Rightarrow>
        if i \<in> seen then (seen, comps)
        else (case bfs rel_pairs prio (insert i seen) [i] [] of
                (seen', cmpt) \<Rightarrow> (seen', comps @ [cmpt])))"

text \<open>
  The iteration order of the adjacency sets is fixed by the relationship list and the
  index whose set is read: \<open>order rel_pairs u\<close> is the sorting key of \<^verbatim>\<open>adj[u]\<close>.
\<close>

type_synonym int_set_order = "rel_pair list \<Rightarrow> nat \<Rightarrow> nat \<Rightarrow> nat"

definition connected_components_on_rels :: "int_set_order \<Rightarrow> rel_pair list \<Rightarrow> nat list list" where
  "connected_components_on_rels order rel_pairs =
     snd (fold (component_step rel_pairs (order rel_pairs)) [0..<length rel_pairs] ({}, []))"

subsection \<open>Chaining one component\<close>

text \<open>\<^verbatim>\<open>degree = defaultdict(int)\<close>, a dictionary in insertion order: an association list.\<close>

definition bump :: "string \<Rightarrow> (string \<times> nat) list \<Rightarrow> (string \<times> nat) list" where
  "bump a degree = AList.update_with_aux 0 a Suc degree"

definition degree_of :: "rel_pair list \<Rightarrow> (string \<times> nat) list" where
  "degree_of comp_edges = fold (\<lambda>(a, b, _) degree. bump b (bump a degree)) comp_edges []"

definition aliases_of :: "rel_pair list \<Rightarrow> string set" where
  "aliases_of comp_edges = set (map fst comp_edges) \<union> set (map (fst \<circ> snd) comp_edges)"

text \<open>
  The value of \<^verbatim>\<open>start\<close>: an alias, or, from the default of
  \<^verbatim>\<open>next((alias for alias, d in degree.items() if d == 1), comp_edges)\<close>, the list of
  edges itself.
\<close>

datatype start_value = StartAlias string | StartEdges "rel_pair list"

definition default_start :: "rel_pair list \<Rightarrow> start_value" where
  "default_start comp_edges =
     (case find (\<lambda>(a, d). d = 1) (degree_of comp_edges) of
        Some (a, d) \<Rightarrow> StartAlias a
      | None \<Rightarrow> StartEdges comp_edges)"

definition choose_start :: "string option \<Rightarrow> rel_pair list \<Rightarrow> start_value" where
  "choose_start preferred_start comp_edges =
     (case preferred_start of
        Some p \<Rightarrow> if p \<in> aliases_of comp_edges then StartAlias p else default_start comp_edges
      | None \<Rightarrow> default_start comp_edges)"

text \<open>\<^verbatim>\<open>alias_adj: Dict[str, List[int]]\<close>, a \<^verbatim>\<open>defaultdict(list)\<close>.\<close>

definition alias_adj_of :: "rel_pair list \<Rightarrow> (string \<Rightarrow> nat list)" where
  "alias_adj_of comp_edges =
     fold (\<lambda>(idx, (a, b, _)) m. (let m1 = m(a := m a @ [idx]) in m1(b := m1 b @ [idx])))
       (enumerate 0 comp_edges) (\<lambda>_. [])"

definition fwd_arrow :: "string \<Rightarrow> string" where
  "fwd_arrow rt = ''-[:'' @ rt @ '']->''"

definition rev_arrow :: "string \<Rightarrow> string" where
  "rev_arrow rt = ''<-[:'' @ rt @ '']-''"

text \<open>
  The greedy walk \<^verbatim>\<open>while used_count < len(comp_edges)\<close>. The inner \<^verbatim>\<open>for\<close> loop takes
  the first edge at \<open>current\<close> that is not used yet; when there is none
  (\<^verbatim>\<open>not progressed\<close>) the walk gives \<open>None\<close> and the caller renders the fallback.
\<close>

function walk :: "rel_pair list \<Rightarrow> (string \<rightharpoonup> Node) \<Rightarrow> (string \<Rightarrow> nat list) \<Rightarrow> bool list
    \<Rightarrow> string list \<Rightarrow> string \<Rightarrow> nat \<Rightarrow> string list option" where
  "walk comp_edges node_lookup alias_adj used segs current used_count =
     (if used_count < length comp_edges then
        (case find (\<lambda>ei. \<not> used ! ei) (alias_adj current) of
           None \<Rightarrow> None
         | Some ei \<Rightarrow>
             (case comp_edges ! ei of (a, b, rt) \<Rightarrow>
                if a = current then
                  walk comp_edges node_lookup alias_adj (used[ei := True])
                    (segs @ [fwd_arrow rt, fmt_node b node_lookup]) b (Suc used_count)
                else
                  walk comp_edges node_lookup alias_adj (used[ei := True])
                    (segs @ [rev_arrow rt, fmt_node a node_lookup]) a (Suc used_count)))
      else Some segs)"
  by pat_completeness auto
termination
  by (relation "measure (\<lambda>(comp_edges, node_lookup, alias_adj, used, segs, current, used_count).
        length comp_edges - used_count)") auto

definition simple_pattern :: "(string \<rightharpoonup> Node) \<Rightarrow> rel_pair \<Rightarrow> string" where
  "simple_pattern node_lookup e =
     (case e of (a, b, rt) \<Rightarrow> fmt_node a node_lookup @ fwd_arrow rt @ fmt_node b node_lookup)"

text \<open>
  \<^verbatim>\<open>_chain_component\<close>. Reading \<^verbatim>\<open>rel_pairs[i]\<close> raises \<^verbatim>\<open>IndexError\<close> out of range.
  When \<^verbatim>\<open>start\<close> is the list of edges, \<^verbatim>\<open>_fmt_node(start, node_lookup)\<close> looks a list up
  in a dictionary, which raises \<^verbatim>\<open>TypeError\<close>: a list is not hashable.
\<close>

definition chain_component :: "rel_pair list \<Rightarrow> nat list \<Rightarrow> (string \<rightharpoonup> Node) \<Rightarrow> string option
    \<Rightarrow> error + string" where
  "chain_component rel_pairs comp_idxs node_lookup preferred_start =
     (if \<exists>i \<in> set comp_idxs. length rel_pairs \<le> i then Inl (IndexError ''list index out of range'')
      else
        (let comp_edges = map (\<lambda>i. rel_pairs ! i) comp_idxs in
           case choose_start preferred_start comp_edges of
             StartEdges es \<Rightarrow> Inl (TypeError (''unhashable type: '' @ sq @ ''list'' @ sq))
           | StartAlias start \<Rightarrow>
               (case walk comp_edges node_lookup (alias_adj_of comp_edges)
                       (replicate (length comp_edges) False) [fmt_node start node_lookup] start 0 of
                  Some segs \<Rightarrow> Inr (concat segs)
                | None \<Rightarrow> Inr (join '', '' (map (simple_pattern node_lookup) comp_edges)))))"

text \<open>Running a list of fallible computations stops at the first exception.\<close>

fun collect :: "('a \<Rightarrow> error + 'b) \<Rightarrow> 'a list \<Rightarrow> error + 'b list" where
  "collect f [] = Inr []"
| "collect f (x # xs) =
     (case f x of
        Inl e \<Rightarrow> Inl e
      | Inr y \<Rightarrow> (case collect f xs of Inl e \<Rightarrow> Inl e | Inr ys \<Rightarrow> Inr (y # ys)))"

definition rel_pair_of :: "Relationship \<Rightarrow> rel_pair" where
  "rel_pair_of rel = (node1 rel, node2 rel, rel_type rel)"

definition build_single_match_clause :: "int_set_order \<Rightarrow> Node list \<Rightarrow> Relationship list
    \<Rightarrow> error + string" where
  "build_single_match_clause order ns rels =
     (let regular = filter (\<lambda>rel. \<not> is_optional rel) rels;
          node_lookup = make_node_lookup ns
      in if regular = [] then
           (if ns \<noteq> [] then Inr (''MATCH '' @ join '', '' (map node_pattern ns)) else Inr [])
         else
           (let rel_pairs = map rel_pair_of regular;
                comps = connected_components_on_rels order rel_pairs
            in case collect (\<lambda>cmpt. chain_component rel_pairs cmpt node_lookup None) comps of
                 Inl e \<Rightarrow> Inl e
               | Inr patterns \<Rightarrow>
                   (let involved = aliases_of rel_pairs;
                        standalone = map node_pattern (filter (\<lambda>n. n_alias n \<notin> involved) ns)
                    in Inr (''MATCH '' @ join '', '' (patterns @ standalone)))))"

subsection \<open>String operations of the anchor selector\<close>

text \<open>
  The characters \<^verbatim>\<open>str.strip()\<close> removes, in UTF-8: the ASCII white space
  (\<^verbatim>\<open>\t \n \v \f \r\<close>, the separators \<open>0x1C\<close> to \<open>0x1F\<close>, the space) and the white space
  beyond ASCII (U+0085, U+00A0, U+1680, U+2000 to U+200A, U+2028, U+2029, U+202F, U+205F,
  U+3000).
\<close>

definition whitespace_codes :: "string list" where
  "whitespace_codes =
     map (\<lambda>c. [c]) [CHR 0x09, CHR 0x0A, CHR 0x0B, CHR 0x0C, CHR 0x0D,
                     CHR 0x1C, CHR 0x1D, CHR 0x1E, CHR 0x1F, CHR 0x20]
     @ [[CHR 0xC2, CHR 0x85], [CHR 0xC2, CHR 0xA0], [CHR 0xE1, CHR 0x9A, CHR 0x80]]
     @ map (\<lambda>c. [CHR 0xE2, CHR 0x80, c])
         [CHR 0x80, CHR 0x81, CHR 0x82, CHR 0x83, CHR 0x84, CHR 0x85, CHR 0x86, CHR 0x87,
          CHR 0x88, CHR 0x89, CHR 0x8A, CHR 0xA8, CHR 0xA9, CHR 0xAF]
     @ [[CHR 0xE2, CHR 0x81, CHR 0x9F], [CHR 0xE3, CHR 0x80, CHR 0x80]]"

function strip_left :: "string list \<Rightarrow> string \<Rightarrow> string" where
  "strip_left codes s =
     (case find (\<lambda>w. w \<noteq> [] \<and> prefix w s) codes of
        None \<Rightarrow> s
      | Some w \<Rightarrow> strip_left codes (drop (length w) s))"
  by pat_completeness auto
termination
proof (relation "measure (\<lambda>(codes, s). length s)", goal_cases)
  case 1
  show ?case by simp
next
  case (2 codes s w)
  then have "w \<noteq> [] \<and> prefix w s" by (auto simp: find_Some_iff)
  then show ?case by (auto simp: prefix_def)
qed

definition strip_both :: "string list \<Rightarrow> string \<Rightarrow> string" where
  "strip_both codes s = rev (strip_left (map rev codes) (rev (strip_left codes s)))"

text \<open>\<^verbatim>\<open>s.strip()\<close> and \<^verbatim>\<open>s.strip('`')\<close>\<close>

definition py_strip :: "string \<Rightarrow> string" where
  "py_strip s = strip_both whitespace_codes s"

definition strip_backticks :: "string \<Rightarrow> string" where
  "strip_backticks s = strip_both [[backtick]] s"

text \<open>\<^verbatim>\<open>s.split(sep)[0]\<close>: the text before the first \<open>sep\<close>, all of \<open>s\<close> when there is none.\<close>

fun before_sep :: "string \<Rightarrow> string \<Rightarrow> string" where
  "before_sep sep [] = []"
| "before_sep sep (c # cs) = (if prefix sep (c # cs) then [] else c # before_sep sep cs)"

text \<open>\<^verbatim>\<open>s.split('.', 1)\<close> of a string that holds a dot: the two parts.\<close>

definition split_dot :: "string \<Rightarrow> string \<times> string" where
  "split_dot s = (takeWhile (\<lambda>c. c \<noteq> CHR ''.'') s, drop 1 (dropWhile (\<lambda>c. c \<noteq> CHR ''.'') s))"

subsection \<open>Anchor selection\<close>

type_synonym props_by_alias = "(string \<times> (string \<times> pyval) list) list"

definition anchor_step :: "(string \<rightharpoonup> Node) \<Rightarrow> Condition \<Rightarrow> props_by_alias \<Rightarrow> props_by_alias" where
  "anchor_step node_lookup cond pba =
     (let field = py_strip (cond_field cond) in
        if CHR ''.'' \<notin> set field then pba
        else
          (case split_dot field of (a0, p0) \<Rightarrow>
             (let a = py_strip a0; p = strip_backticks (py_strip p0) in
                if node_lookup a \<noteq> None \<and> cond_operator cond = ''='' then
                  AList.update_with_aux [] a (AList.update p (cond_value cond)) pba
                else pba)))"

text \<open>
  \<^verbatim>\<open>_extract_anchor_from_where\<close>. Every key of \<open>props_by_alias\<close> is an alias of
  \<open>node_lookup\<close>, so \<^verbatim>\<open>node_lookup[anchor_alias]\<close> finds its node.
\<close>

definition extract_anchor_from_where :: "WhereClause option \<Rightarrow> (string \<rightharpoonup> Node)
    \<Rightarrow> (string \<times> string \<times> (string \<times> pyval) list) option" where
  "extract_anchor_from_where wh node_lookup =
     (case wh of
        None \<Rightarrow> None
      | Some w \<Rightarrow>
          if conditions w = [] then None
          else
            (case fold (anchor_step node_lookup) (conditions w) [] of
               [(anchor_alias, props)] \<Rightarrow>
                 (case node_lookup anchor_alias of
                    Some n \<Rightarrow> Some (anchor_alias, label n, props)
                  | None \<Rightarrow> None)
             | _ \<Rightarrow> None))"

text \<open>\<^verbatim>\<open>list(dict.fromkeys(xs))\<close>: the first occurrence of each element, in order.\<close>

definition unique_in_order :: "'a list \<Rightarrow> 'a list" where
  "unique_in_order xs = fold set_add xs []"

definition return_alias :: "string \<Rightarrow> string" where
  "return_alias f =
     (let part = py_strip (before_sep '' AS '' f) in
        if CHR ''.'' \<in> set part then py_strip (fst (split_dot part)) else part)"

definition extract_return_aliases :: "ReturnClause \<Rightarrow> string list" where
  "extract_return_aliases ret = unique_in_order (map return_alias (return_fields ret))"

subsection \<open>Optional relationships\<close>

text \<open>
  \<^verbatim>\<open>aliases_in_comp\<close> is a set of strings that the code iterates over, to find an alias
  that is bound already; \<open>akey\<close> is the sorting key of its iteration order.
\<close>

definition aliases_in_order :: "rel_pair list \<Rightarrow> string list" where
  "aliases_in_order comp_edges = fold (\<lambda>(a, b, _) acc. set_add b (set_add a acc)) comp_edges []"

definition optional_line :: "(string \<Rightarrow> nat) \<Rightarrow> rel_pair list \<Rightarrow> (string \<rightharpoonup> Node) \<Rightarrow> string set
    \<Rightarrow> nat list \<Rightarrow> error + string" where
  "optional_line akey opt_pairs node_lookup bound_aliases cmpt =
     (if \<exists>i \<in> set cmpt. length opt_pairs \<le> i then Inl (IndexError ''list index out of range'')
      else
        (let comp_edges = map (\<lambda>i. opt_pairs ! i) cmpt;
             aliases_in_comp = aliases_in_order comp_edges;
             start_alias = find (\<lambda>x. x \<in> bound_aliases) (iter_set akey aliases_in_comp)
         in case chain_component opt_pairs cmpt node_lookup start_alias of
              Inl e \<Rightarrow> Inl e
            | Inr pattern \<Rightarrow> Inr (''OPTIONAL MATCH '' @ pattern)))"

definition build_optional_match_components :: "int_set_order \<Rightarrow> (string \<Rightarrow> nat) \<Rightarrow> Node list
    \<Rightarrow> Relationship list \<Rightarrow> string set \<Rightarrow> error + string list" where
  "build_optional_match_components order akey ns optional_rels bound_aliases =
     (let node_lookup = make_node_lookup ns;
          opt_pairs = map rel_pair_of optional_rels;
          comps = connected_components_on_rels order opt_pairs
      in collect (optional_line akey opt_pairs node_lookup bound_aliases) comps)"

section \<open>Advanced pattern builder\<close>

text \<open>
  The fields of \<^verbatim>\<open>AdvancedPatternBuilder\<close> are the arguments of \<open>build_optimal_patterns\<close>;
  the lists \<^verbatim>\<open>patterns\<close> and the set \<^verbatim>\<open>bound_aliases\<close> are passed from step to step.
\<close>

definition preference_list :: "string list" where
  "preference_list = [''j'', ''Job'', ''c'', ''Candidate'', ''r'', ''Resume'', ''s'', ''Skill'']"

text \<open>The block \<^verbatim>\<open>if self.regular_rels:\<close>.\<close>

definition required_section :: "int_set_order \<Rightarrow> Node list \<Rightarrow> Relationship list \<Rightarrow> Relationship list
    \<Rightarrow> error + string list \<times> string set" where
  "required_section order ns rels regular_rels =
     (if regular_rels \<noteq> [] then
        (case build_single_match_clause order ns rels of
           Inl e \<Rightarrow> Inl e
         | Inr match_line \<Rightarrow>
             Inr (if match_line \<noteq> [] then [match_line] else [],
                  aliases_of (map rel_pair_of regular_rels)))
      else Inr ([], {}))"

text \<open>The choice of \<^verbatim>\<open>chosen\<close> among the aliases of the return clause.\<close>

definition choose_return_alias :: "(string \<rightharpoonup> Node) \<Rightarrow> ReturnClause \<Rightarrow> string option" where
  "choose_return_alias node_lookup return_clause =
     (let ret_aliases = filter (\<lambda>a. node_lookup a \<noteq> None) (extract_return_aliases return_clause);
          unique_ret = unique_in_order ret_aliases;
          chosen = find (\<lambda>p. p \<in> set unique_ret) preference_list
      in case chosen of
           Some p \<Rightarrow> Some p
         | None \<Rightarrow> (case unique_ret of [a] \<Rightarrow> Some a | _ \<Rightarrow> None))"

text \<open>
  The block \<^verbatim>\<open>if not self.regular_rels:\<close>; its result holds \<^verbatim>\<open>anchor_info\<close> too.
  \<^verbatim>\<open>if chosen:\<close> is false for the empty string.
\<close>

definition anchor_section :: "(string \<rightharpoonup> Node) \<Rightarrow> Relationship list \<Rightarrow> ReturnClause
    \<Rightarrow> WhereClause option \<Rightarrow> string list \<times> string set
    \<Rightarrow> string list \<times> string set \<times> (string \<times> string \<times> (string \<times> pyval) list) option" where
  "anchor_section node_lookup regular_rels return_clause where_clause st =
     (case st of (patterns, bound_aliases) \<Rightarrow>
        if regular_rels = [] then
          (case extract_anchor_from_where where_clause node_lookup of
             Some (a_alias, a_label, a_props) \<Rightarrow>
               (patterns @ [''MATCH '' @ fmt_node_with_props a_alias a_label a_props],
                insert a_alias bound_aliases, Some (a_alias, a_label, a_props))
           | None \<Rightarrow>
               (case choose_return_alias node_lookup return_clause of
                  Some a_alias \<Rightarrow>
                    (case node_lookup a_alias of
                       Some n \<Rightarrow>
                         if a_alias \<noteq> [] then
                           (patterns @ [''MATCH ('' @ a_alias @ '':'' @ label n @ '')''],
                            insert a_alias bound_aliases, None)
                         else (patterns, bound_aliases, None)
                     | None \<Rightarrow> (patterns, bound_aliases, None))
                | None \<Rightarrow> (patterns, bound_aliases, None)))
        else (patterns, bound_aliases, None))"

definition build_optimal_patterns :: "int_set_order \<Rightarrow> (string \<Rightarrow> nat) \<Rightarrow> Node list
    \<Rightarrow> Relationship list \<Rightarrow> ReturnClause \<Rightarrow> WhereClause option \<Rightarrow> error + string list" where
  "build_optimal_patterns order akey ns rels return_clause where_clause =
     (let node_lookup = make_node_lookup ns;
          regular_rels = filter (\<lambda>rel. \<not> is_optional rel) rels;
          optional_rels = filter is_optional rels
      in case required_section order ns rels regular_rels of
           Inl e \<Rightarrow> Inl e
         | Inr st1 \<Rightarrow>
             (case anchor_section node_lookup regular_rels return_clause where_clause st1 of
                (patterns2, bound_aliases, anchor_info) \<Rightarrow>
                  (case (if optional_rels \<noteq> [] then
                           build_optional_match_components order akey ns optional_rels bound_aliases
                         else Inr []) of
                     Inl e \<Rightarrow> Inl e
                   | Inr opt_lines \<Rightarrow>
                       (let patterns3 = patterns2 @ opt_lines;
                            patterns4 =
                              (if length rels = 0 \<and> anchor_info = None \<and> bound_aliases = {} \<and> ns \<noteq> []
                               then patterns3 @ [''MATCH '' @ join '', '' (map node_pattern ns)]
                               else patterns3)
                        in Inr (filter (\<lambda>p. p \<noteq> []) patterns4)))))"

section \<open>Cypher generation functions\<close>

definition build_advanced_match_clause :: "int_set_order \<Rightarrow> (string \<Rightarrow> nat) \<Rightarrow> Node list
    \<Rightarrow> Relationship list \<Rightarrow> ReturnClause \<Rightarrow> WhereClause option \<Rightarrow> error + string" where
  "build_advanced_match_clause order akey ns rels return_clause where_clause =
     (if length rels = 0 then
        (if ns \<noteq> [] then Inr (''MATCH '' @ join '', '' (map node_pattern ns)) else Inr [])
      else
        (case build_optimal_patterns order akey ns rels return_clause where_clause of
           Inl e \<Rightarrow> Inl e
         | Inr patterns \<Rightarrow> Inr (join nl patterns)))"

fun render_value :: "pyval \<Rightarrow> string" where
  "render_value (VStr s) = sq @ s @ sq"
| "render_value (VBool b) = (if b then ''true'' else ''false'')"
| "render_value VNone = ''null''"
| "render_value (VInt i) = str_int i"
| "render_value (VOther t) = t"

definition render_condition :: "Condition \<Rightarrow> string" where
  "render_condition cond =
     cond_field cond @ '' '' @ cond_operator cond @ '' '' @ render_value (cond_value cond)"

definition build_where_clause :: "WhereClause \<Rightarrow> string" where
  "build_where_clause where_clause =
     ''WHERE '' @ join ('' '' @ where_type where_clause @ '' '')
                    (map render_condition (conditions where_clause))"

definition render_aggregation :: "Aggregation \<Rightarrow> string" where
  "render_aggregation agg =
     agg_function agg @ ''('' @ agg_field agg @ '') AS '' @ agg_alias agg"

text \<open>\<^verbatim>\<open>if with_clause.aggregations:\<close> is false for \<^verbatim>\<open>None\<close> and for the empty list.\<close>

definition build_with_clause :: "WithClause \<Rightarrow> string" where
  "build_with_clause with_clause =
     (let parts = with_fields with_clause;
          parts' = (case aggregations with_clause of
                      None \<Rightarrow> parts
                    | Some aggs \<Rightarrow> parts @ map render_aggregation aggs)
      in ''WITH '' @ join '', '' parts')"

definition build_return_clause :: "ReturnClause \<Rightarrow> string" where
  "build_return_clause return_clause =
     (let return_str = ''RETURN'';
          return_str' = (if distinct_flag return_clause then return_str @ '' DISTINCT'' else return_str)
      in return_str' @ '' '' @ join '', '' (return_fields return_clause))"

definition build_orderby_clause :: "OrderByClause \<Rightarrow> string" where
  "build_orderby_clause orderby_clause =
     ''ORDER BY '' @ order_field orderby_clause @ '' '' @ direction orderby_clause"

definition build_limit_clause :: "int \<Rightarrow> string" where
  "build_limit_clause n = ''LIMIT '' @ str_int n"

section \<open>Main conversion function\<close>

text \<open>The three validations at the head of the \<^verbatim>\<open>try\<close> block.\<close>

definition validate_query :: "CypherQuery \<Rightarrow> error + unit" where
  "validate_query q =
     (case validate_aliases (nodes q) (relationships q) of
        Inl e \<Rightarrow> Inl e
      | Inr _ \<Rightarrow>
          (case (case whereClause q of
                   Some w \<Rightarrow> validate_conditions (conditions w)
                 | None \<Rightarrow> Inr ()) of
             Inl e \<Rightarrow> Inl e
           | Inr _ \<Rightarrow> validate_field_syntax (return_fields (returnClause q))))"

definition match_section :: "int_set_order \<Rightarrow> (string \<Rightarrow> nat) \<Rightarrow> CypherQuery \<Rightarrow> bool \<Rightarrow> error + string" where
  "match_section order akey q optimize =
     (if optimize then
        build_advanced_match_clause order akey (nodes q) (relationships q) (returnClause q) (whereClause q)
      else build_single_match_clause order (nodes q) (relationships q))"

text \<open>\<^verbatim>\<open>query_parts.append(part)\<close>\<close>

definition append_part :: "string \<Rightarrow> string list \<Rightarrow> string list" where
  "append_part part query_parts = query_parts @ [part]"

text \<open>The rendering steps of the \<^verbatim>\<open>try\<close> block, from the match clause on.\<close>

definition render_parts :: "CypherQuery \<Rightarrow> string \<Rightarrow> string list" where
  "render_parts q match_clause =
     (let qp0 = [];
          qp1 = (if match_clause \<noteq> [] then append_part match_clause qp0 else qp0);
          qp2 = (case whereClause q of
                   Some w \<Rightarrow> append_part (build_where_clause w) qp1 | None \<Rightarrow> qp1);
          qp3 = (case with_projection q of
                   Some w \<Rightarrow> append_part (build_with_clause w) qp2 | None \<Rightarrow> qp2);
          qp4 = (case withClause q of
                   Some w \<Rightarrow> append_part (build_where_clause w) qp3 | None \<Rightarrow> qp3);
          qp5 = append_part (build_return_clause (returnClause q)) qp4;
          qp6 = (case orderBy q of
                   Some ob \<Rightarrow> append_part (build_orderby_clause ob) qp5 | None \<Rightarrow> qp5);
          qp7 = (case limit q of
                   Some n \<Rightarrow> append_part (build_limit_clause n) qp6 | None \<Rightarrow> qp6)
      in qp7)"

text \<open>The body of the \<^verbatim>\<open>try\<close> block after the document is bound to the model.\<close>

definition compile_query :: "int_set_order \<Rightarrow> (string \<Rightarrow> nat) \<Rightarrow> CypherQuery \<Rightarrow> bool \<Rightarrow> error + string" where
  "compile_query order akey q optimize =
     (case validate_query q of
        Inl e \<Rightarrow> Inl e
      | Inr _ \<Rightarrow>
          (case match_section order akey q optimize of
             Inl e \<Rightarrow> Inl e
           | Inr match_clause \<Rightarrow> Inr (join nl (render_parts q match_clause))))"

text \<open>The failure marker: a cross mark (U+274C, in UTF-8) and \<^verbatim>\<open>" Error: "\<close>.\<close>

definition failure_marker :: string where
  "failure_marker = [CHR 0xE2, CHR 0x9D, CHR 0x8C] @ '' Error: ''"

text \<open>
  \<^verbatim>\<open>convert_json_to_cypher\<close>. The binding of the document to the model,
  \<^verbatim>\<open>CypherQuery.model_validate\<close>, belongs to a library: it is the parameter
  \<open>model_validate\<close>, which gives the bound request or the library's exception.
  \<^verbatim>\<open>except Exception as e\<close> turns every exception into the marked message.
\<close>

definition convert_json_to_cypher :: "int_set_order \<Rightarrow> (string \<Rightarrow> nat) \<Rightarrow> ('j \<Rightarrow> error + CypherQuery)
    \<Rightarrow> 'j \<Rightarrow> bool \<Rightarrow> string" where
  "convert_json_to_cypher order akey model_validate json_data optimize =
     (case (case model_validate json_data of
              Inl e \<Rightarrow> Inl e
            | Inr cypher_data \<Rightarrow> compile_query order akey cypher_data optimize) of
        Inl e \<Rightarrow> failure_marker @ message e
      | Inr text \<Rightarrow> text)"

section \<open>Properties of the validator\<close>

text \<open>
  The specification's words for the field check: a field "contains whitespace" when one
  of its characters is white space, and is "delimited" when it holds a backtick-quoted
  segment, that is two backticks.
\<close>

definition spec_is_whitespace :: "char \<Rightarrow> bool" where
  "spec_is_whitespace c = (c \<in> set [CHR 0x09, CHR 0x0A, CHR 0x0B, CHR 0x0C, CHR 0x0D, CHR 0x20])"

definition spec_contains_whitespace :: "string \<Rightarrow> bool" where
  "spec_contains_whitespace f = list_ex spec_is_whitespace f"

definition spec_backtick_delimited :: "string \<Rightarrow> bool" where
  "spec_backtick_delimited f = (2 \<le> count_list f backtick)"

lemma validate_field_syntax_fails_iff:
  "(\<exists>e. validate_field_syntax fs = Inl e) \<longleftrightarrow>
   (\<exists>f \<in> set fs. CHR '' '' \<in> set f \<and> \<not> re_match_backticked f)"
  by (induction fs) auto

lemma re_match_backticked_no_newline:
  "CHR 0x0A \<notin> set f \<Longrightarrow> re_match_backticked f = (2 \<le> count_list f backtick)"
  by (cases f rule: rev_cases) (auto simp: re_match_backticked_def Let_def)

text \<open>
  C8, as stated, fails: the field \<^verbatim>\<open>a<TAB>b\<close> contains whitespace and no backtick, and
  \<open>validate_field_syntax\<close> accepts it, since the code tests for the space character only.
\<close>

theorem validate_field_syntax_accepts_tab:
  "spec_contains_whitespace [CHR ''a'', CHR 0x09, CHR ''b'']
   \<and> \<not> spec_backtick_delimited [CHR ''a'', CHR 0x09, CHR ''b'']
   \<and> validate_field_syntax [[CHR ''a'', CHR 0x09, CHR ''b'']] = Inr ()"
  by (simp add: spec_contains_whitespace_def spec_is_whitespace_def spec_backtick_delimited_def
      backtick_def)

text \<open>
  C8, amended: \<open>validate_field_syntax\<close> fails if and only if some field contains a space
  character (U+0020) and does not match the backtick pattern; for a field without a line
  feed that is: it contains a space and fewer than two backticks. Every field without a
  space is accepted.
\<close>

theorem validate_field_syntax_rejects_unquoted_space:
  "((\<exists>e. validate_field_syntax fs = Inl e) \<longleftrightarrow>
      (\<exists>f \<in> set fs. CHR '' '' \<in> set f \<and> \<not> re_match_backticked f))
   \<and> (CHR 0x0A \<notin> set f \<longrightarrow>
        ((\<exists>e. validate_field_syntax [f] = Inl e) \<longleftrightarrow>
         (CHR '' '' \<in> set f \<and> count_list f backtick < 2)))
   \<and> (CHR '' '' \<notin> set f \<longrightarrow> validate_field_syntax [f] = Inr ())"
  using validate_field_syntax_fails_iff [of fs] validate_field_syntax_fails_iff [of "[f]"]
    re_match_backticked_no_newline [of f]
  by auto

text \<open>
  The amended C8 at concrete fields: \<^verbatim>\<open>a b\<close> is rejected, \<^verbatim>\<open>ab\<close> and the backticked
  \<^verbatim>\<open>a b\<close> are accepted.
\<close>

theorem validate_field_syntax_rejects_unquoted_space_witness:
  "CHR 0x0A \<notin> set ''a b'' \<and> CHR '' '' \<in> set ''a b'' \<and> count_list ''a b'' backtick < 2
   \<and> (\<exists>e. validate_field_syntax [''a b''] = Inl e)
   \<and> CHR '' '' \<notin> set ''ab'' \<and> validate_field_syntax [''ab''] = Inr ()
   \<and> validate_field_syntax [[backtick] @ ''a b'' @ [backtick]] = Inr ()"
  using validate_field_syntax_rejects_unquoted_space [of "[''a b'']" "''a b''"]
    validate_field_syntax_rejects_unquoted_space [of "[]" "''ab''"]
  by (simp add: backtick_def re_match_backticked_def)

text \<open>
  The referential-integrity failure: the \<^verbatim>\<open>ValueError\<close> of \<open>validate_aliases\<close> for an
  endpoint of some relationship that is not the alias of a node.
\<close>

definition undeclared_alias_error :: "string \<Rightarrow> string \<Rightarrow> error" where
  "undeclared_alias_error which a =
     ValueError (''Relationship '' @ which @ '' alias '' @ sq @ a @ sq @ '' not found in nodes.'')"

definition referential_integrity_error :: "Node list \<Rightarrow> Relationship list \<Rightarrow> error \<Rightarrow> bool" where
  "referential_integrity_error ns rels e =
     list_ex (\<lambda>rel. (node1 rel \<notin> set (map n_alias ns) \<and> e = undeclared_alias_error ''node1'' (node1 rel))
                  \<or> (node2 rel \<notin> set (map n_alias ns) \<and> e = undeclared_alias_error ''node2'' (node2 rel))) rels"

lemma check_aliases_undeclared:
  assumes "rel \<in> set rels" "node1 rel \<notin> A \<or> node2 rel \<notin> A"
  shows "\<exists>e. check_aliases A rels = Inl e \<and>
    (\<exists>r \<in> set rels. (node1 r \<notin> A \<and> e = undeclared_alias_error ''node1'' (node1 r))
                  \<or> (node2 r \<notin> A \<and> e = undeclared_alias_error ''node2'' (node2 r)))"
  using assms by (induction rels) (auto simp: undeclared_alias_error_def)

lemma validate_aliases_undeclared:
  assumes "rel \<in> set rels" "node1 rel \<notin> set (map n_alias ns) \<or> node2 rel \<notin> set (map n_alias ns)"
  shows "\<exists>e. validate_aliases ns rels = Inl e \<and> referential_integrity_error ns rels e"
  using check_aliases_undeclared [OF assms]
  unfolding validate_aliases_def referential_integrity_error_def list_ex_iff by blast

text \<open>
  C7: when a relationship of the request names as \<open>node1\<close> an alias that no node
  declares, \<open>validate_aliases\<close> fails with the error of an undeclared alias, the compiler
  fails with that error whatever the optimisation flag, before any pattern is rendered,
  and the entry point returns the failure marker followed by the error's message and
  nothing else.
\<close>

theorem undeclared_node1_fails_before_rendering:
  assumes "model_validate json_data = Inr q"
    and "rel \<in> set (relationships q)"
    and "node1 rel \<notin> set (map n_alias (nodes q))"
  shows "\<exists>e. referential_integrity_error (nodes q) (relationships q) e
    \<and> validate_aliases (nodes q) (relationships q) = Inl e
    \<and> compile_query order akey q optimize = Inl e
    \<and> convert_json_to_cypher order akey model_validate json_data optimize = failure_marker @ message e"
proof -
  from validate_aliases_undeclared [of rel "relationships q" "nodes q"] assms
  obtain e where e: "validate_aliases (nodes q) (relationships q) = Inl e"
    "referential_integrity_error (nodes q) (relationships q) e" by blast
  then have "compile_query order akey q optimize = Inl e"
    by (simp add: compile_query_def validate_query_def)
  with e assms(1) show ?thesis
    by (auto simp: convert_json_to_cypher_def)
qed

text \<open>A request whose relationship names the undeclared alias \<open>a\<close>.\<close>

definition undeclared_request :: CypherQuery where
  "undeclared_request = \<lparr>nodes = [\<lparr>label = ''B'', n_alias = ''b''\<rparr>],
         relationships = [\<lparr>node1 = ''a'', node2 = ''b'', rel_type = ''R'', optional = Some False\<rparr>],
         whereClause = None, with_projection = None, withClause = None,
         returnClause = \<lparr>return_fields = [''b''], distinct_flag = False\<rparr>,
         orderBy = None, limit = None\<rparr>"

text \<open>C7 at a request whose only relationship starts at the undeclared alias \<open>a\<close>.\<close>

theorem undeclared_node1_fails_before_rendering_witness:
  "convert_json_to_cypher (\<lambda>_ _ _. 0) (\<lambda>_. 0) Inr undeclared_request True
     = failure_marker @ ''Relationship node1 alias '' @ sq @ ''a'' @ sq @ '' not found in nodes.''
   \<and> convert_json_to_cypher (\<lambda>_ _ _. 0) (\<lambda>_. 0) Inr undeclared_request False
     = failure_marker @ ''Relationship node1 alias '' @ sq @ ''a'' @ sq @ '' not found in nodes.''"
proof -
  have r: "\<lparr>node1 = ''a'', node2 = ''b'', rel_type = ''R'', optional = Some False\<rparr> \<in> set (relationships undeclared_request)"
    by (simp add: undeclared_request_def)
  have a: "node1 \<lparr>node1 = ''a'', node2 = ''b'', rel_type = ''R'', optional = Some False\<rparr>
      \<notin> set (map n_alias (nodes undeclared_request))"
    by (simp add: undeclared_request_def)
  have v: "validate_aliases (nodes undeclared_request) (relationships undeclared_request)
     = Inl (ValueError (''Relationship node1 alias '' @ sq @ ''a'' @ sq @ '' not found in nodes.''))"
    by (simp add: undeclared_request_def validate_aliases_def)
  have m: "Inr undeclared_request = (Inr undeclared_request :: error + CypherQuery)" by simp
  from undeclared_node1_fails_before_rendering [where model_validate = Inr and json_data = undeclared_request, OF m r a,
      where order = "\<lambda>_ _ _. 0" and akey = "\<lambda>_. 0" and optimize = True]
    undeclared_node1_fails_before_rendering [where model_validate = Inr and json_data = undeclared_request, OF m r a,
      where order = "\<lambda>_ _ _. 0" and akey = "\<lambda>_. 0" and optimize = False] v
  show ?thesis by auto
qed

end
